theory Spec2Isabelle
  imports Complex_Main "HOL-Library.Char_ord" "HOL-Library.List_Lexorder" "HOL-Library.Sublist"
    "HOL-Library.AList"
begin

section \<open>Python values\<close>

text \<open>
  The program is \<^verbatim>\<open>src/main.py\<close>. Its values are Python objects; the model keeps the
  constructors the code can tell apart. A \<^verbatim>\<open>dict\<close> with string keys is an association
  list in insertion order. Python floats are idealised as reals: rounding of double
  arithmetic is not modelled, and neither are NaN and the infinities. Strings are
  ASCII text: \<^verbatim>\<open>str.lower\<close> and \<^verbatim>\<open>str.strip\<close> are modelled on ASCII characters.
\<close>

datatype pyval =
    PNone
  | PBool bool
  | PInt int
  | PFloat real
  | PStr string
  | PList "pyval list"
  | PDict "(string \<times> pyval) list"

type_synonym pydict = "(string \<times> pyval) list"

text \<open>An exception that no \<^verbatim>\<open>except\<close> of the program catches.\<close>

datatype exn = TypeError | ValueError | KeyError | AttributeError | JSONDecodeError

section \<open>The TTL cache\<close>

text \<open>
  \<^verbatim>\<open>_cache: Dict[Tuple[str, str], Tuple[float, Any]] = {}\<close> and \<^verbatim>\<open>TTL_SECONDS = 30\<close>.
  Every call of \<^verbatim>\<open>_cache_set\<close> in the program stores a dict, so the stored values are
  dicts. The value of \<^verbatim>\<open>time.time()\<close> is an argument.
\<close>

type_synonym cache_key = "string \<times> string"
type_synonym cache_store = "cache_key \<rightharpoonup> (real \<times> pydict)"

definition TTL_SECONDS :: real where
  "TTL_SECONDS = 30"

text \<open>
  \<^verbatim>\<open>_cache_get\<close> reads the store and returns it as it was; \<^verbatim>\<open>None\<close> is the
  result for a missing or an expired entry.
\<close>

definition cache_get :: "real \<Rightarrow> cache_key \<Rightarrow> cache_store \<Rightarrow> pydict option \<times> cache_store" where
  "cache_get now key c =
     (case c key of
        Some (ts, data) \<Rightarrow> (if now - ts < TTL_SECONDS then (Some data, c) else (None, c))
      | None \<Rightarrow> (None, c))"

definition cache_set :: "real \<Rightarrow> cache_key \<Rightarrow> pydict \<Rightarrow> cache_store \<Rightarrow> cache_store" where
  "cache_set now key data c = c(key \<mapsto> (now, data))"

section \<open>Strings\<close>

text \<open>
  \<^verbatim>\<open>str.isspace\<close> on ASCII: the characters 9 to 13, 28 to 31 and the space.
\<close>

definition is_space :: "char \<Rightarrow> bool" where
  "is_space c \<longleftrightarrow> (of_char c :: nat) \<in> {9, 10, 11, 12, 13, 28, 29, 30, 31, 32}"

definition lower_char :: "char \<Rightarrow> char" where
  "lower_char c =
     (if 65 \<le> (of_char c :: nat) \<and> (of_char c :: nat) \<le> 90
      then char_of (of_char c + 32 :: nat) else c)"

definition lower :: "string \<Rightarrow> string" where
  "lower s = map lower_char s"

definition strip :: "string \<Rightarrow> string" where
  "strip s = rev (dropWhile is_space (rev (dropWhile is_space s)))"

text \<open>\<^verbatim>\<open>sub in s\<close> for two strings.\<close>

fun str_contains :: "string \<Rightarrow> string \<Rightarrow> bool" where
  "str_contains sub [] = (sub = [])"
| "str_contains sub (c # cs) = (prefix sub (c # cs) \<or> str_contains sub cs)"

text \<open>\<^verbatim>\<open>str(n)\<close> of an integer, as an f-string renders it.\<close>

definition digit_char :: "nat \<Rightarrow> char" where
  "digit_char n = char_of (48 + n)"

fun str_of_nat :: "nat \<Rightarrow> string" where
  "str_of_nat n =
     (if n < 10 then [digit_char n] else str_of_nat (n div 10) @ [digit_char (n mod 10)])"

definition str_of_int :: "int \<Rightarrow> string" where
  "str_of_int i = (if i < 0 then CHR ''-'' # str_of_nat (nat (- i)) else str_of_nat (nat i))"

section \<open>Dicts and the operations on upstream JSON\<close>

text \<open>\<^verbatim>\<open>d.get(k)\<close> on a dict.\<close>

definition dict_get :: "pydict \<Rightarrow> string \<Rightarrow> pyval" where
  "dict_get d k = (case map_of d k of None \<Rightarrow> PNone | Some v \<Rightarrow> v)"

text \<open>
  \<^verbatim>\<open>{"cached": True, **cached}\<close>: the keys of the second dict are written over the
  first, one after the other; a key that is already there keeps its place.
\<close>

definition dict_unpack :: "pydict \<Rightarrow> pydict \<Rightarrow> pydict" where
  "dict_unpack base d = foldl (\<lambda>acc kv. AList.update (fst kv) (snd kv) acc) base d"

definition has_key :: "pydict \<Rightarrow> string \<Rightarrow> bool" where
  "has_key d k \<longleftrightarrow> k \<in> set (map fst d)"

text \<open>\<^verbatim>\<open>x.get(k)\<close> on any value: only a dict has the method.\<close>

definition py_get :: "pyval \<Rightarrow> string \<Rightarrow> exn + pyval" where
  "py_get v k = (case v of PDict d \<Rightarrow> Inr (dict_get d k) | _ \<Rightarrow> Inl AttributeError)"

text \<open>\<^verbatim>\<open>k in v\<close> for a string \<open>k\<close>.\<close>

definition py_contains :: "pyval \<Rightarrow> string \<Rightarrow> exn + bool" where
  "py_contains v k =
     (case v of
        PDict d \<Rightarrow> Inr (has_key d k)
      | PList xs \<Rightarrow> Inr (PStr k \<in> set xs)
      | PStr s \<Rightarrow> Inr (str_contains k s)
      | _ \<Rightarrow> Inl TypeError)"

text \<open>\<^verbatim>\<open>v[k]\<close> for a string \<open>k\<close>.\<close>

definition py_getitem :: "pyval \<Rightarrow> string \<Rightarrow> exn + pyval" where
  "py_getitem v k =
     (case v of
        PDict d \<Rightarrow> (case map_of d k of None \<Rightarrow> Inl KeyError | Some x \<Rightarrow> Inr x)
      | _ \<Rightarrow> Inl TypeError)"

text \<open>Iterating a value in a \<^verbatim>\<open>for\<close> loop.\<close>

definition py_iter :: "pyval \<Rightarrow> exn + pyval list" where
  "py_iter v =
     (case v of
        PList xs \<Rightarrow> Inr xs
      | PDict d \<Rightarrow> Inr (map (\<lambda>kv. PStr (fst kv)) d)
      | PStr s \<Rightarrow> Inr (map (\<lambda>c. PStr [c]) s)
      | _ \<Rightarrow> Inl TypeError)"

text \<open>Truth value of an object, as \<^verbatim>\<open>or\<close> tests it.\<close>

definition truthy :: "pyval \<Rightarrow> bool" where
  "truthy v =
     (case v of
        PNone \<Rightarrow> False
      | PBool b \<Rightarrow> b
      | PInt i \<Rightarrow> i \<noteq> 0
      | PFloat x \<Rightarrow> x \<noteq> 0
      | PStr s \<Rightarrow> s \<noteq> []
      | PList xs \<Rightarrow> xs \<noteq> []
      | PDict d \<Rightarrow> d \<noteq> [])"

text \<open>
  \<^verbatim>\<open>float(v)\<close>. What \<^verbatim>\<open>float\<close> makes of a string is Python's own parser, an
  argument of the model.
\<close>

definition py_float :: "(string \<Rightarrow> real option) \<Rightarrow> pyval \<Rightarrow> exn + real" where
  "py_float parse v =
     (case v of
        PInt i \<Rightarrow> Inr (of_int i)
      | PFloat x \<Rightarrow> Inr x
      | PBool b \<Rightarrow> Inr (if b then 1 else 0)
      | PStr s \<Rightarrow> (case parse s of None \<Rightarrow> Inl ValueError | Some x \<Rightarrow> Inr x)
      | _ \<Rightarrow> Inl TypeError)"

text \<open>\<^verbatim>\<open>v / 1000\<close>.\<close>

definition py_div_1000 :: "pyval \<Rightarrow> exn + real" where
  "py_div_1000 v =
     (case v of
        PInt i \<Rightarrow> Inr (of_int i / 1000)
      | PFloat x \<Rightarrow> Inr (x / 1000)
      | PBool b \<Rightarrow> Inr ((if b then 1 else 0) / 1000)
      | _ \<Rightarrow> Inl TypeError)"

text \<open>\<^verbatim>\<open>int(x)\<close> of a float truncates towards zero.\<close>

definition py_int :: "real \<Rightarrow> int" where
  "py_int x = (if x < 0 then \<lceil>x\<rceil> else \<lfloor>x\<rfloor>)"

section \<open>The upstream and the world\<close>

text \<open>
  What \<^verbatim>\<open>requests.get\<close> gives: an exception with its message, or a response. The field
  \<open>json\<close> is the value of \<^verbatim>\<open>r.json()\<close>, \<open>None\<close> when the body does not parse.
\<close>

record response =
  status_code :: int
  content_type :: "string option"
  text_body :: string
  json :: "pyval option"

datatype http_outcome = Raised string | Responded response

type_synonym request = "string \<times> pydict"

text \<open>
  The environment of one call: the upstream, the two readings of \<^verbatim>\<open>time.time()\<close>
  (in \<^verbatim>\<open>_cache_get\<close> and in \<^verbatim>\<open>_cache_set\<close>) and Python's parser of floats.
\<close>

record env =
  requests_get :: "string \<Rightarrow> pydict \<Rightarrow> http_outcome"
  time_lookup :: real
  time_store :: real
  float_of_str :: "string \<Rightarrow> real option"

text \<open>The state: the cache, and the requests sent upstream so far, oldest first.\<close>

record world =
  cache :: cache_store
  sent :: "request list"

type_synonym outcome = "(exn + pydict) \<times> world"

definition COINGECKO_BASE :: string where
  "COINGECKO_BASE = ''https://api.coingecko.com/api/v3''"

text \<open>
  The three fetchers classify the response with the same lines (77 to 88, 126 to 137,
  187 to 198): a network error, a status other than 200 and a content type without
  \<^verbatim>\<open>json\<close> each return an error dict.
\<close>

datatype fetched = Failed pydict | Uncaught exn | Body pyval

definition get_json :: "http_outcome \<Rightarrow> fetched" where
  "get_json h =
     (case h of
        Raised e \<Rightarrow> Failed [(''error'', PStr (''Network error: '' @ e))]
      | Responded r \<Rightarrow>
          if status_code r \<noteq> 200
          then Failed [(''error'', PStr (''CoinGecko returned '' @ str_of_int (status_code r))),
                       (''details'', PStr (take 300 (text_body r)))]
          else if \<not> str_contains ''json''
                      (lower (case content_type r of None \<Rightarrow> [] | Some s \<Rightarrow> s))
          then Failed [(''error'', PStr ''Not a JSON response from CoinGecko''),
                       (''details'', PStr (take 300 (text_body r)))]
          else (case json r of None \<Rightarrow> Uncaught JSONDecodeError | Some v \<Rightarrow> Body v))"

definition send :: "world \<Rightarrow> string \<Rightarrow> pydict \<Rightarrow> world" where
  "send w url params = w\<lparr>sent := sent w @ [(url, params)]\<rparr>"

section \<open>Market snapshot: \<^verbatim>\<open>fetch_top\<close>\<close>

fun top_items :: "pyval list \<Rightarrow> exn + pyval list" where
  "top_items [] = Inr []"
| "top_items (x # xs) =
     (case x of
        PDict d \<Rightarrow>
          (case top_items xs of
             Inl e \<Rightarrow> Inl e
           | Inr items \<Rightarrow>
               Inr (PDict [(''market_cap_rank'', dict_get d ''market_cap_rank''),
                           (''id'', dict_get d ''id''),
                           (''symbol'', dict_get d ''symbol''),
                           (''name'', dict_get d ''name''),
                           (''current_price'', dict_get d ''current_price''),
                           (''market_cap'', dict_get d ''market_cap''),
                           (''price_change_percentage_24h'',
                              dict_get d ''price_change_percentage_24h'')] # items))
      | _ \<Rightarrow> Inl AttributeError)"

definition top_vs :: "string \<Rightarrow> string" where
  "top_vs vs = lower (if vs = [] then ''usd'' else vs)"

definition top_per_page :: "int \<Rightarrow> int" where
  "top_per_page per_page = max 1 (min per_page 250)"

definition top_page :: "int \<Rightarrow> int" where
  "top_page page = max 1 page"

definition top_key :: "string \<Rightarrow> int \<Rightarrow> int \<Rightarrow> cache_key" where
  "top_key vs per_page page =
     (''top'', vs @ '':'' @ str_of_int per_page @ '':'' @ str_of_int page)"

definition top_params :: "string \<Rightarrow> int \<Rightarrow> int \<Rightarrow> pydict" where
  "top_params vs per_page page =
     [(''vs_currency'', PStr vs),
      (''order'', PStr ''market_cap_desc''),
      (''per_page'', PInt per_page),
      (''page'', PInt page),
      (''sparkline'', PStr ''false''),
      (''price_change_percentage'', PStr ''24h'')]"

definition fetch_top :: "env \<Rightarrow> world \<Rightarrow> string \<Rightarrow> int \<Rightarrow> int \<Rightarrow> outcome" where
  "fetch_top e w vs0 per_page0 page0 =
     (let vs = top_vs vs0;
          per_page = top_per_page per_page0;
          page = top_page page0;
          ck = top_key vs per_page page;
          (cached, c) = cache_get (time_lookup e) ck (cache w)
      in case cached of
           Some d \<Rightarrow> (Inr (dict_unpack [(''cached'', PBool True)] d), w\<lparr>cache := c\<rparr>)
         | None \<Rightarrow>
             (let params = top_params vs per_page page;
                  url = COINGECKO_BASE @ ''/coins/markets'';
                  w1 = send (w\<lparr>cache := c\<rparr>) url params
              in case get_json (requests_get e url params) of
                   Failed err \<Rightarrow> (Inr err, w1)
                 | Uncaught x \<Rightarrow> (Inl x, w1)
                 | Body rows \<Rightarrow>
                     (case py_iter rows of
                        Inl x \<Rightarrow> (Inl x, w1)
                      | Inr xs \<Rightarrow>
                          (case top_items xs of
                             Inl x \<Rightarrow> (Inl x, w1)
                           | Inr items \<Rightarrow>
                               (let out = [(''vs'', PStr vs), (''page'', PInt page),
                                           (''per_page'', PInt per_page),
                                           (''count'', PInt (int (length items))),
                                           (''items'', PList items)]
                                in (Inr out,
                                    w1\<lparr>cache := cache_set (time_store e) ck out (cache w1)\<rparr>))))))"

section \<open>Price: \<^verbatim>\<open>fetch_price\<close> and the conversion\<close>

definition norm_coin :: "string \<Rightarrow> string" where
  "norm_coin coin_id = lower (strip coin_id)"

definition norm_vs :: "string \<Rightarrow> string" where
  "norm_vs vs = lower (strip (if vs = [] then ''usd'' else vs))"

definition price_key :: "string \<Rightarrow> string \<Rightarrow> bool \<Rightarrow> cache_key" where
  "price_key coin_id vs include_24h_change =
     (''price'', coin_id @ '':'' @ vs @ '':'' @ (if include_24h_change then ''1'' else ''0''))"

definition price_params :: "string \<Rightarrow> string \<Rightarrow> bool \<Rightarrow> pydict" where
  "price_params coin_id vs include_24h_change =
     [(''ids'', PStr coin_id),
      (''vs_currencies'', PStr vs),
      (''include_last_updated_at'', PStr ''true''),
      (''include_24hr_change'', PStr (if include_24h_change then ''true'' else ''false''))]"

definition not_found :: "string \<Rightarrow> string \<Rightarrow> pydict" where
  "not_found coin_id vs =
     [(''error'', PStr ''No price found (check coin_id and vs currency)''),
      (''coin_id'', PStr coin_id), (''vs'', PStr vs)]"

text \<open>
  Lines 137 to 151, after \<^verbatim>\<open>data = r.json()\<close>: \<open>Inr (Inl err)\<close> is the returned error
  dict, \<open>Inr (Inr out)\<close> the quote that is stored and returned.
\<close>

definition price_of_body :: "pyval \<Rightarrow> string \<Rightarrow> string \<Rightarrow> bool \<Rightarrow> exn + (pydict + pydict)" where
  "price_of_body data coin_id vs include_24h_change =
     (case py_contains data coin_id of
        Inl x \<Rightarrow> Inl x
      | Inr False \<Rightarrow> Inr (Inl (not_found coin_id vs))
      | Inr True \<Rightarrow>
          (case py_getitem data coin_id of
             Inl x \<Rightarrow> Inl x
           | Inr row \<Rightarrow>
               (case py_contains row vs of
                  Inl x \<Rightarrow> Inl x
                | Inr False \<Rightarrow> Inr (Inl (not_found coin_id vs))
                | Inr True \<Rightarrow>
                    (case py_getitem row vs of
                       Inl x \<Rightarrow> Inl x
                     | Inr p \<Rightarrow>
                         (case py_get row ''last_updated_at'' of
                            Inl x \<Rightarrow> Inl x
                          | Inr upd \<Rightarrow>
                              (let out = [(''coin_id'', PStr coin_id), (''vs'', PStr vs),
                                          (''price'', p), (''last_updated_at'', upd)]
                               in if include_24h_change
                                  then (case py_get row (vs @ ''_24h_change'') of
                                          Inl x \<Rightarrow> Inl x
                                        | Inr ch \<Rightarrow>
                                            Inr (Inr (AList.update ''change_24h'' ch out)))
                                  else Inr (Inr out)))))))"

definition fetch_price :: "env \<Rightarrow> world \<Rightarrow> string \<Rightarrow> string \<Rightarrow> bool \<Rightarrow> outcome" where
  "fetch_price e w coin_id0 vs0 include_24h_change =
     (let coin_id = norm_coin coin_id0;
          vs = norm_vs vs0
      in if coin_id = [] then (Inr [(''error'', PStr ''coin_id is required'')], w)
         else
           (let ck = price_key coin_id vs include_24h_change;
                (cached, c) = cache_get (time_lookup e) ck (cache w)
            in case cached of
                 Some d \<Rightarrow> (Inr (dict_unpack [(''cached'', PBool True)] d), w\<lparr>cache := c\<rparr>)
               | None \<Rightarrow>
                   (let params = price_params coin_id vs include_24h_change;
                        url = COINGECKO_BASE @ ''/simple/price'';
                        w1 = send (w\<lparr>cache := c\<rparr>) url params
                    in case get_json (requests_get e url params) of
                         Failed err \<Rightarrow> (Inr err, w1)
                       | Uncaught x \<Rightarrow> (Inl x, w1)
                       | Body data \<Rightarrow>
                           (case price_of_body data coin_id vs include_24h_change of
                              Inl x \<Rightarrow> (Inl x, w1)
                            | Inr (Inl err) \<Rightarrow> (Inr err, w1)
                            | Inr (Inr out) \<Rightarrow>
                                (Inr out,
                                 w1\<lparr>cache := cache_set (time_store e) ck out (cache w1)\<rparr>)))))"

text \<open>
  \<^verbatim>\<open>cg_convert\<close>: the handler of \<^verbatim>\<open>/cg/convert\<close>. \<^verbatim>\<open>price.get("cached", False)\<close> is
  the value under the key when the key is there.
\<close>

definition cg_convert :: "env \<Rightarrow> world \<Rightarrow> string \<Rightarrow> string \<Rightarrow> real \<Rightarrow> outcome" where
  "cg_convert e w coin_id vs amount =
     (case fetch_price e w coin_id vs False of
        (Inl x, w') \<Rightarrow> (Inl x, w')
      | (Inr price, w') \<Rightarrow>
          if has_key price ''error'' then (Inr price, w')
          else (case py_getitem (PDict price) ''price'' of
                  Inl x \<Rightarrow> (Inl x, w')
                | Inr p \<Rightarrow>
                    (case py_float (float_of_str e) p of
                       Inl x \<Rightarrow> (Inl x, w')
                     | Inr rate \<Rightarrow>
                         (Inr [(''coin_id'', PStr coin_id),
                               (''amount'', PFloat amount),
                               (''vs'', PStr vs),
                               (''rate'', PFloat rate),
                               (''result'', PFloat (amount * rate)),
                               (''last_updated_at'', dict_get price ''last_updated_at''),
                               (''cached'', (case map_of price ''cached'' of
                                               None \<Rightarrow> PBool False | Some v \<Rightarrow> v))],
                          w'))))"

section \<open>Calendar dates\<close>

text \<open>
  The proleptic Gregorian calendar of \<^verbatim>\<open>datetime\<close>: a date is year, month and day; the
  ordinal of 0001-01-01 is 1 and that of 1970-01-01 is 719163. The tables have a
  placeholder at index 0, as Python's have.
\<close>

type_synonym date = "int \<times> int \<times> int"

definition DAYS_IN_MONTH :: "int list" where
  "DAYS_IN_MONTH = [-1, 31, 28, 31, 30, 31, 30, 31, 31, 30, 31, 30, 31]"

definition DAYS_BEFORE_MONTH :: "int list" where
  "DAYS_BEFORE_MONTH = [-1, 0, 31, 59, 90, 120, 151, 181, 212, 243, 273, 304, 334]"

definition is_leap :: "int \<Rightarrow> bool" where
  "is_leap year \<longleftrightarrow> year mod 4 = 0 \<and> (year mod 100 \<noteq> 0 \<or> year mod 400 = 0)"

definition days_before_year :: "int \<Rightarrow> int" where
  "days_before_year year =
     (let y = year - 1 in y * 365 + y div 4 - y div 100 + y div 400)"

definition days_in_month :: "int \<Rightarrow> int \<Rightarrow> int" where
  "days_in_month year month =
     (if month = 2 \<and> is_leap year then 29 else DAYS_IN_MONTH ! nat month)"

definition days_before_month :: "int \<Rightarrow> int \<Rightarrow> int" where
  "days_before_month year month =
     DAYS_BEFORE_MONTH ! nat month + (if month > 2 \<and> is_leap year then 1 else 0)"

definition ymd2ord :: "date \<Rightarrow> int" where
  "ymd2ord dt =
     (case dt of (year, month, day) \<Rightarrow>
        days_before_year year + days_before_month year month + day)"

text \<open>
  \<^verbatim>\<open>_ord2ymd\<close>, the date of an ordinal, in two parts: the year from the cycles of 400,
  100 and 4 years, then the month and the day from the day of the year \<open>n\<close> (from 0),
  with a first guess of the month that is at most one too high.
\<close>

definition month_day :: "bool \<Rightarrow> int \<Rightarrow> int \<times> int" where
  "month_day leapyear n =
     (let month = (n + 50) div 32;
          preceding = DAYS_BEFORE_MONTH ! nat month
                        + (if month > 2 \<and> leapyear then 1 else 0)
      in if preceding > n
         then (let month = month - 1;
                   preceding = preceding
                      - (DAYS_IN_MONTH ! nat month
                           + (if month = 2 \<and> leapyear then 1 else 0))
               in (month, n - preceding + 1))
         else (month, n - preceding + 1))"

definition ord2ymd :: "int \<Rightarrow> date" where
  "ord2ymd n0 =
     (let n = n0 - 1;
          n400 = n div 146097; n = n mod 146097;
          year = n400 * 400 + 1;
          n100 = n div 36524; n = n mod 36524;
          n4 = n div 1461; n = n mod 1461;
          n1 = n div 365; n = n mod 365;
          year = year + n100 * 100 + n4 * 4 + n1
      in if n1 = 4 \<or> n100 = 4 then (year - 1, 12, 31)
         else (case month_day (n1 = 3 \<and> (n4 \<noteq> 24 \<or> n100 = 3)) n of
                 (month, day) \<Rightarrow> (year, month, day)))"

text \<open>\<^verbatim>\<open>date.isoformat()\<close>: \<^verbatim>\<open>"%04d-%02d-%02d"\<close>.\<close>

definition zfill :: "nat \<Rightarrow> string \<Rightarrow> string" where
  "zfill n s = replicate (n - length s) (CHR ''0'') @ s"

definition isoformat :: "date \<Rightarrow> string" where
  "isoformat dt =
     (case dt of (year, month, day) \<Rightarrow>
        zfill 4 (str_of_int year) @ ''-'' @ zfill 2 (str_of_int month) @ ''-''
          @ zfill 2 (str_of_int day))"

text \<open>
  \<^verbatim>\<open>datetime.strptime(s, "%Y-%m-%d")\<close>. The format is the regular expression
  \<^verbatim>\<open>(\d\d\d\d)-(1[0-2]|0[1-9]|[1-9])-(3[0-1]|[1-2]\d|0[1-9]|[1-9]| [1-9])\<close>, matched at
  the start of the string; text left over is an error, and so is a date that the
  calendar does not have. In the month, an alternative that matches two digits is
  followed by a hyphen or by nothing that the shorter one would accept, so the first
  alternative that matches is the one the match keeps.
\<close>

definition is_digit :: "char \<Rightarrow> bool" where
  "is_digit c \<longleftrightarrow> 48 \<le> (of_char c :: nat) \<and> (of_char c :: nat) \<le> 57"

definition digit_val :: "char \<Rightarrow> int" where
  "digit_val c = int (of_char c) - 48"

definition is_digit19 :: "char \<Rightarrow> bool" where
  "is_digit19 c \<longleftrightarrow> 49 \<le> (of_char c :: nat) \<and> (of_char c :: nat) \<le> 57"

fun match_month :: "string \<Rightarrow> (int \<times> string) option" where
  "match_month (a # b # r) =
     (if a = CHR ''1'' \<and> b \<in> {CHR ''0'', CHR ''1'', CHR ''2''} then Some (10 + digit_val b, r)
      else if a = CHR ''0'' \<and> is_digit19 b then Some (digit_val b, r)
      else if is_digit19 a then Some (digit_val a, b # r)
      else None)"
| "match_month [a] = (if is_digit19 a then Some (digit_val a, []) else None)"
| "match_month [] = None"

fun match_day :: "string \<Rightarrow> (int \<times> string) option" where
  "match_day (a # b # r) =
     (if a = CHR ''3'' \<and> b \<in> {CHR ''0'', CHR ''1''} then Some (30 + digit_val b, r)
      else if a \<in> {CHR ''1'', CHR ''2''} \<and> is_digit b then Some (10 * digit_val a + digit_val b, r)
      else if a = CHR ''0'' \<and> is_digit19 b then Some (digit_val b, r)
      else if is_digit19 a then Some (digit_val a, b # r)
      else if a = CHR '' '' \<and> is_digit19 b then Some (digit_val b, r)
      else None)"
| "match_day [a] = (if is_digit19 a then Some (digit_val a, []) else None)"
| "match_day [] = None"

definition valid_date :: "date \<Rightarrow> bool" where
  "valid_date dt =
     (case dt of (year, month, day) \<Rightarrow>
        1 \<le> year \<and> year \<le> 9999 \<and> 1 \<le> month \<and> month \<le> 12 \<and>
        1 \<le> day \<and> day \<le> days_in_month year month)"

fun strptime_ymd :: "string \<Rightarrow> date option" where
  "strptime_ymd (y1 # y2 # y3 # y4 # h # r) =
     (if is_digit y1 \<and> is_digit y2 \<and> is_digit y3 \<and> is_digit y4 \<and> h = CHR ''-''
      then (case match_month r of
              None \<Rightarrow> None
            | Some (month, r1) \<Rightarrow>
                (case r1 of
                   [] \<Rightarrow> None
                 | h2 # r2 \<Rightarrow>
                     if h2 = CHR ''-''
                     then (case match_day r2 of
                             None \<Rightarrow> None
                           | Some (day, r3) \<Rightarrow>
                               (let dt = (1000 * digit_val y1 + 100 * digit_val y2
                                            + 10 * digit_val y3 + digit_val y4, month, day)
                                in if r3 = [] \<and> valid_date dt then Some dt else None))
                     else None))
      else None)"
| "strptime_ymd _ = None"

text \<open>
  \<^verbatim>\<open>_parse_iso_date\<close>: the parsed date at midnight UTC; \<open>None\<close> when \<^verbatim>\<open>strptime\<close>
  raises.
\<close>

definition parse_iso_date :: "string \<Rightarrow> date option" where
  "parse_iso_date date_iso = strptime_ymd date_iso"

text \<open>Comparison of two midnights, field by field.\<close>

definition dt_less :: "date \<Rightarrow> date \<Rightarrow> bool" where
  "dt_less a b =
     (case a of (y, m, d) \<Rightarrow> case b of (y', m', d') \<Rightarrow>
        y < y' \<or> (y = y' \<and> (m < m' \<or> (m = m' \<and> d < d'))))"

text \<open>\<^verbatim>\<open>timestamp()\<close> of the midnight UTC of a date, in seconds since 1970-01-01.\<close>

definition timestamp :: "date \<Rightarrow> real" where
  "timestamp dt = of_int ((ymd2ord dt - 719163) * 86400)"

text \<open>
  \<^verbatim>\<open>datetime.fromtimestamp(t, tz=timezone.utc).date()\<close>: the time is rounded to the
  microsecond, half to even; a year outside 1 to 9999 raises, which is \<open>None\<close>.
\<close>

definition round_half_even :: "real \<Rightarrow> int" where
  "round_half_even x =
     (let f = \<lfloor>x\<rfloor>; d = x - of_int f
      in if d < 1 / 2 then f else if d > 1 / 2 then f + 1 else if even f then f else f + 1)"

definition utc_date :: "real \<Rightarrow> date option" where
  "utc_date t =
     (let us = round_half_even (t * 1000000);
          n = 719163 + us div 86400000000
      in if 1 \<le> n \<and> n \<le> 3652059 then Some (ord2ymd n) else None)"

section \<open>History: \<^verbatim>\<open>fetch_history_range\<close>\<close>

text \<open>Lines 173 to 179: the swap and the two bounds.\<close>

definition history_bounds :: "date \<Rightarrow> date \<Rightarrow> int \<times> int" where
  "history_bounds dt_from0 dt_to0 =
     (let (dt_from, dt_to) =
            (if dt_less dt_to0 dt_from0 then (dt_to0, dt_from0) else (dt_from0, dt_to0));
          unix_from = py_int (timestamp dt_from);
          unix_to = py_int (timestamp dt_to + 1 / 1000000) + 24 * 3600 - 1
      in (unix_from, unix_to))"

definition history_key :: "string \<Rightarrow> string \<Rightarrow> int \<Rightarrow> int \<Rightarrow> cache_key" where
  "history_key coin_id vs unix_from unix_to =
     (''hist'', coin_id @ '':'' @ vs @ '':'' @ str_of_int unix_from @ '':'' @ str_of_int unix_to)"

definition history_params :: "string \<Rightarrow> int \<Rightarrow> int \<Rightarrow> pydict" where
  "history_params vs unix_from unix_to =
     [(''vs_currency'', PStr vs), (''from'', PInt unix_from), (''to'', PInt unix_to)]"

definition history_url :: "string \<Rightarrow> string" where
  "history_url coin_id = COINGECKO_BASE @ ''/coins/'' @ coin_id @ ''/market_chart/range''"

text \<open>\<^verbatim>\<open>for ms, price in prices\<close>: each element is unpacked into exactly two.\<close>

definition unpack2 :: "pyval \<Rightarrow> exn + (pyval \<times> pyval)" where
  "unpack2 v =
     (case py_iter v of
        Inl x \<Rightarrow> Inl x
      | Inr [a, b] \<Rightarrow> Inr (a, b)
      | Inr _ \<Rightarrow> Inl ValueError)"

text \<open>The body of the \<^verbatim>\<open>try\<close>: \<open>None\<close> when it raises, and the pair is skipped.\<close>

definition point_of :: "(string \<Rightarrow> real option) \<Rightarrow> pyval \<Rightarrow> pyval \<Rightarrow> (string \<times> real) option" where
  "point_of parse ms price =
     (case py_div_1000 ms of
        Inl _ \<Rightarrow> None
      | Inr t \<Rightarrow>
          (case utc_date t of
             None \<Rightarrow> None
           | Some dt \<Rightarrow>
               (case py_float parse price of
                  Inl _ \<Rightarrow> None
                | Inr p \<Rightarrow> Some (isoformat dt, p))))"

fun collect_points :: "(string \<Rightarrow> real option) \<Rightarrow> pyval list \<Rightarrow> exn + (string \<times> real) list" where
  "collect_points parse [] = Inr []"
| "collect_points parse (x # xs) =
     (case unpack2 x of
        Inl e \<Rightarrow> Inl e
      | Inr (ms, price) \<Rightarrow>
          (case collect_points parse xs of
             Inl e \<Rightarrow> Inl e
           | Inr pts \<Rightarrow>
               Inr (case point_of parse ms price of None \<Rightarrow> pts | Some p \<Rightarrow> p # pts)))"

text \<open>Lines 209 to 212: the dict by day, then one point for each key in sorted order.\<close>

definition by_day_of :: "(string \<times> real) list \<Rightarrow> (string \<times> real) list" where
  "by_day_of points = foldl (\<lambda>by_day p. AList.update (fst p) (snd p) by_day) [] points"

fun points_at :: "(string \<times> real) list \<Rightarrow> string list \<Rightarrow> exn + (string \<times> real) list" where
  "points_at by_day [] = Inr []"
| "points_at by_day (d # ds) =
     (case map_of by_day d of
        None \<Rightarrow> Inl KeyError
      | Some v \<Rightarrow>
          (case points_at by_day ds of Inl e \<Rightarrow> Inl e | Inr ps \<Rightarrow> Inr ((d, v) # ps)))"

definition dedup_points :: "(string \<times> real) list \<Rightarrow> exn + (string \<times> real) list" where
  "dedup_points points =
     (let by_day = by_day_of points in points_at by_day (sort (map fst by_day)))"

definition point_dict :: "string \<times> real \<Rightarrow> pyval" where
  "point_dict p = PDict [(''date'', PStr (fst p)), (''price'', PFloat (snd p))]"

text \<open>Lines 199 to 206, from the parsed body to \<^verbatim>\<open>points\<close>, in source order.\<close>

definition history_samples :: "(string \<Rightarrow> real option) \<Rightarrow> pyval \<Rightarrow> exn + (string \<times> real) list" where
  "history_samples parse raw =
     (case py_get raw ''prices'' of
        Inl x \<Rightarrow> Inl x
      | Inr v \<Rightarrow>
          (case py_iter (if truthy v then v else PList []) of
             Inl x \<Rightarrow> Inl x
           | Inr prices \<Rightarrow> collect_points parse prices))"

text \<open>Lines 198 to 212, from the parsed body to \<^verbatim>\<open>points2\<close>.\<close>

definition history_points :: "(string \<Rightarrow> real option) \<Rightarrow> pyval \<Rightarrow> exn + (string \<times> real) list" where
  "history_points parse raw =
     (case history_samples parse raw of
        Inl x \<Rightarrow> Inl x
      | Inr points \<Rightarrow> dedup_points points)"

definition history_out :: "string \<Rightarrow> string \<Rightarrow> string \<Rightarrow> string \<Rightarrow> (string \<times> real) list \<Rightarrow> pydict" where
  "history_out coin_id vs date_from date_to points2 =
     [(''coin_id'', PStr coin_id), (''vs'', PStr vs), (''from'', PStr date_from),
      (''to'', PStr date_to), (''points'', PList (map point_dict points2)),
      (''count'', PInt (int (length points2)))]"

definition fetch_history_range ::
  "env \<Rightarrow> world \<Rightarrow> string \<Rightarrow> string \<Rightarrow> string \<Rightarrow> string \<Rightarrow> outcome" where
  "fetch_history_range e w coin_id0 vs0 date_from date_to =
     (let coin_id = norm_coin coin_id0;
          vs = norm_vs vs0
      in if coin_id = [] then (Inr [(''error'', PStr ''coin_id is required'')], w)
         else if date_from = [] \<or> date_to = []
         then (Inr [(''error'', PStr ''date_from and date_to are required (YYYY-MM-DD)'')], w)
         else
           (case (parse_iso_date date_from, parse_iso_date date_to) of
              (Some dt_from, Some dt_to) \<Rightarrow>
                (let (unix_from, unix_to) = history_bounds dt_from dt_to;
                     ck = history_key coin_id vs unix_from unix_to;
                     (cached, c) = cache_get (time_lookup e) ck (cache w)
                 in case cached of
                      Some d \<Rightarrow>
                        (Inr (dict_unpack [(''cached'', PBool True)] d), w\<lparr>cache := c\<rparr>)
                    | None \<Rightarrow>
                        (let params = history_params vs unix_from unix_to;
                             url = history_url coin_id;
                             w1 = send (w\<lparr>cache := c\<rparr>) url params
                         in case get_json (requests_get e url params) of
                              Failed err \<Rightarrow> (Inr err, w1)
                            | Uncaught x \<Rightarrow> (Inl x, w1)
                            | Body raw \<Rightarrow>
                                (case history_points (float_of_str e) raw of
                                   Inl x \<Rightarrow> (Inl x, w1)
                                 | Inr points2 \<Rightarrow>
                                     (let out = history_out coin_id vs date_from date_to points2
                                      in (Inr out,
                                          w1\<lparr>cache :=
                                               cache_set (time_store e) ck out (cache w1)\<rparr>)))))
            | _ \<Rightarrow> (Inr [(''error'', PStr ''bad dates (use YYYY-MM-DD)'')], w)))"

section \<open>Vocabulary of the properties\<close>

text \<open>A call has failed when it raised or returned a dict with the key \<^verbatim>\<open>error\<close>.\<close>

definition is_error :: "exn + pydict \<Rightarrow> bool" where
  "is_error r = (case r of Inl _ \<Rightarrow> True | Inr d \<Rightarrow> has_key d ''error'')"


text \<open>
  Environments and a state for concrete runs: an upstream that answers every request
  with the same outcome, a lookup at time 1000 and a store at time 1001.
\<close>

definition env_of :: "http_outcome \<Rightarrow> env" where
  "env_of h = \<lparr>requests_get = (\<lambda>url params. h), time_lookup = 1000, time_store = 1001,
               float_of_str = (\<lambda>s. None)\<rparr>"

definition json_response :: "pyval \<Rightarrow> http_outcome" where
  "json_response v =
     Responded \<lparr>status_code = 200, content_type = Some ''application/json; charset=utf-8'',
                text_body = [], json = Some v\<rparr>"

definition empty_world :: world where
  "empty_world = \<lparr>cache = Map.empty, sent = []\<rparr>"

text \<open>A state whose cache holds a bitcoin quote in US dollars, stored at time 990.\<close>

definition quote_world :: world where
  "quote_world =
     \<lparr>cache = Map.empty((''price'', ''bitcoin:usd:0'') \<mapsto>
                (990, [(''coin_id'', PStr ''bitcoin''), (''vs'', PStr ''usd''),
                       (''price'', PFloat 50000), (''last_updated_at'', PInt 1700000000)])),
      sent = []\<rparr>"


text \<open>The body of a price response for bitcoin in US dollars.\<close>

definition bitcoin_usd :: pyval where
  "bitcoin_usd =
     PDict [(''bitcoin'', PDict [(''usd'', PFloat 50000), (''last_updated_at'', PInt 1700000000)])]"

section \<open>Properties of the cache\<close>

text \<open>
  C1: for every key and every stored entry \<open>(ts, data)\<close>, the lookup returns the stored
  value if and only if \<open>now - ts < 30\<close>; an older entry gives \<^verbatim>\<open>None\<close>, the lookup
  leaves the store as it was (the stale entry is still there), and a later set for the
  same key replaces the entry, which is then served while it is fresh.
\<close>

theorem cache_get_ttl:
  "c key = Some (ts, data) \<Longrightarrow>
     (fst (cache_get now key c) = Some data \<longleftrightarrow> now - ts < 30) \<and>
     (\<not> now - ts < 30 \<longrightarrow> fst (cache_get now key c) = None) \<and>
     snd (cache_get now key c) = c \<and>
     snd (cache_get now key c) key = Some (ts, data) \<and>
     cache_set now' key data' (snd (cache_get now key c)) key = Some (now', data') \<and>
     (now'' - now' < 30 \<longrightarrow>
        fst (cache_get now'' key (cache_set now' key data' (snd (cache_get now key c)))) = Some data')"
  by (simp add: cache_get_def cache_set_def TTL_SECONDS_def)

theorem cache_get_ttl_witness:
  "(Map.empty((''price'', ''bitcoin:usd:0'') \<mapsto> (100::real, [(''price'', PFloat 5)])))
       (''price'', ''bitcoin:usd:0'') = Some (100, [(''price'', PFloat 5)]) \<and>
   fst (cache_get 129 (''price'', ''bitcoin:usd:0'')
       (Map.empty((''price'', ''bitcoin:usd:0'') \<mapsto> (100, [(''price'', PFloat 5)]))))
     = Some [(''price'', PFloat 5)] \<and>
   fst (cache_get 130 (''price'', ''bitcoin:usd:0'')
       (Map.empty((''price'', ''bitcoin:usd:0'') \<mapsto> (100, [(''price'', PFloat 5)]))))
     = None"
  using cache_get_ttl [of "Map.empty((''price'', ''bitcoin:usd:0'') \<mapsto> (100, [(''price'', PFloat 5)]))"
      "(''price'', ''bitcoin:usd:0'')" 100 "[(''price'', PFloat 5)]" 129 0 "[]" 0]
    cache_get_ttl [of "Map.empty((''price'', ''bitcoin:usd:0'') \<mapsto> (100, [(''price'', PFloat 5)]))"
      "(''price'', ''bitcoin:usd:0'')" 100 "[(''price'', PFloat 5)]" 130 0 "[]" 0]
  by simp

section \<open>Properties of the market snapshot\<close>






section \<open>Properties of the price fetcher\<close>










lemma fetch_price_norm:
  "norm_coin c1 = norm_coin c2 \<Longrightarrow> norm_vs v1 = norm_vs v2 \<Longrightarrow>
   fetch_price e w c1 v1 b = fetch_price e w c2 v2 b"
  by (simp add: fetch_price_def)


lemma norm_coin_Bitcoin: "norm_coin ''  Bitcoin '' = ''bitcoin''" by code_simp
lemma norm_coin_bitcoin: "norm_coin ''bitcoin'' = ''bitcoin''" by code_simp
lemma norm_vs_USD: "norm_vs ''USD'' = ''usd''" by code_simp
lemma norm_vs_usd: "norm_vs ''usd'' = ''usd''" by code_simp



lemma json_in_ct: "str_contains ''json'' (lower ''application/json; charset=utf-8'')" by code_simp

lemma get_json_response: "get_json (json_response v) = Body v"
  by (simp add: get_json_def json_response_def json_in_ct)

lemma get_json_raised: "get_json (Raised m) = Failed [(''error'', PStr (''Network error: '' @ m))]"
  by (simp add: get_json_def)


lemma has_key_map_of: "has_key d k \<longleftrightarrow> map_of d k \<noteq> None"
  by (simp add: has_key_def map_of_eq_None_iff)





section \<open>Properties of the conversion\<close>

lemma fetch_price_fresh:
  assumes "norm_coin coin_id \<noteq> []"
    and "fst (cache_get (time_lookup e) (price_key (norm_coin coin_id) (norm_vs vs) False) (cache w)) = None"
    and "requests_get e (COINGECKO_BASE @ ''/simple/price'')
           (price_params (norm_coin coin_id) (norm_vs vs) False) = Responded r"
    and "status_code r = 200" and "content_type r = Some ct" and "str_contains ''json'' (lower ct)"
    and "json r = Some (PDict data)"
    and "map_of data (norm_coin coin_id) = Some (PDict row)"
    and "map_of row (norm_vs vs) = Some pv"
  shows "fst (fetch_price e w coin_id vs False) =
           Inr [(''coin_id'', PStr (norm_coin coin_id)), (''vs'', PStr (norm_vs vs)),
                (''price'', pv), (''last_updated_at'', dict_get row ''last_updated_at'')]"
proof -
  have g: "get_json (requests_get e (COINGECKO_BASE @ ''/simple/price'')
        (price_params (norm_coin coin_id) (norm_vs vs) False)) = Body (PDict data)"
    using assms by (simp add: get_json_def)
  have b: "price_of_body (PDict data) (norm_coin coin_id) (norm_vs vs) False =
      Inr (Inr [(''coin_id'', PStr (norm_coin coin_id)), (''vs'', PStr (norm_vs vs)),
                (''price'', pv), (''last_updated_at'', dict_get row ''last_updated_at'')])"
    using assms(8,9)
    by (simp add: price_of_body_def py_contains_def py_getitem_def py_get_def has_key_map_of)
  have c: "cache_get (time_lookup e) (price_key (norm_coin coin_id) (norm_vs vs) False) (cache w)
      = (None, cache w)"
    using assms(2) by (auto simp: cache_get_def split: option.splits if_splits)
  show ?thesis
    using assms(1) by (simp add: fetch_price_def c g b Let_def)
qed

text \<open>
  C5: the conversion calls \<^verbatim>\<open>fetch_price\<close> without the 24h change. When that returns a
  quote without the key \<^verbatim>\<open>error\<close> whose price is the number \<open>p\<close>, the result carries
  the rate \<open>p\<close>, \<open>amount * p\<close>, the quote's \<^verbatim>\<open>last_updated_at\<close> and its \<^verbatim>\<open>cached\<close>
  flag (false when the quote has none); when it returns an error dict, or raises, the
  conversion returns the same. From end to end: on a cache miss with an upstream quote
  of price \<open>rate\<close> the result is \<open>amount * rate\<close>, not cached. With price 50000 and
  amount 0.5 the result is 25000.
\<close>

theorem cg_convert_result:
  "(fetch_price e w coin_id vs False = (Inr q, w') \<and> \<not> has_key q ''error'' \<and>
    map_of q ''price'' = Some pv \<and> py_float (float_of_str e) pv = Inr p \<longrightarrow>
      cg_convert e w coin_id vs amount =
        (Inr [(''coin_id'', PStr coin_id), (''amount'', PFloat amount), (''vs'', PStr vs),
              (''rate'', PFloat p), (''result'', PFloat (amount * p)),
              (''last_updated_at'', dict_get q ''last_updated_at''),
              (''cached'', (case map_of q ''cached'' of None \<Rightarrow> PBool False | Some v \<Rightarrow> v))],
         w')) \<and>
   (fetch_price e w coin_id vs False = (Inr q, w') \<and> has_key q ''error'' \<longrightarrow>
      cg_convert e w coin_id vs amount = (Inr q, w')) \<and>
   (fetch_price e w coin_id vs False = (Inl x, w') \<longrightarrow>
      cg_convert e w coin_id vs amount = (Inl x, w')) \<and>
   (norm_coin coin_id \<noteq> [] \<and>
    fst (cache_get (time_lookup e) (price_key (norm_coin coin_id) (norm_vs vs) False) (cache w)) = None \<and>
    requests_get e (COINGECKO_BASE @ ''/simple/price'')
        (price_params (norm_coin coin_id) (norm_vs vs) False) = Responded r \<and>
    status_code r = 200 \<and> content_type r = Some ct \<and> str_contains ''json'' (lower ct) \<and>
    json r = Some (PDict data) \<and>
    map_of data (norm_coin coin_id) = Some (PDict row) \<and>
    map_of row (norm_vs vs) = Some (PFloat rate) \<longrightarrow>
      fst (cg_convert e w coin_id vs amount) =
        Inr [(''coin_id'', PStr coin_id), (''amount'', PFloat amount), (''vs'', PStr vs),
             (''rate'', PFloat rate), (''result'', PFloat (amount * rate)),
             (''last_updated_at'', dict_get row ''last_updated_at''),
             (''cached'', PBool False)])"
proof (intro conjI impI)
  assume a: "norm_coin coin_id \<noteq> [] \<and>
    fst (cache_get (time_lookup e) (price_key (norm_coin coin_id) (norm_vs vs) False) (cache w)) = None \<and>
    requests_get e (COINGECKO_BASE @ ''/simple/price'')
        (price_params (norm_coin coin_id) (norm_vs vs) False) = Responded r \<and>
    status_code r = 200 \<and> content_type r = Some ct \<and> str_contains ''json'' (lower ct) \<and>
    json r = Some (PDict data) \<and>
    map_of data (norm_coin coin_id) = Some (PDict row) \<and>
    map_of row (norm_vs vs) = Some (PFloat rate)"
  then have f: "fst (fetch_price e w coin_id vs False) =
           Inr [(''coin_id'', PStr (norm_coin coin_id)), (''vs'', PStr (norm_vs vs)),
                (''price'', PFloat rate), (''last_updated_at'', dict_get row ''last_updated_at'')]"
    using fetch_price_fresh [of coin_id e vs w r ct data row "PFloat rate"] by blast
  obtain res w1 where fp: "fetch_price e w coin_id vs False = (res, w1)"
    by (cases "fetch_price e w coin_id vs False")
  with f show "fst (cg_convert e w coin_id vs amount) =
        Inr [(''coin_id'', PStr coin_id), (''amount'', PFloat amount), (''vs'', PStr vs),
             (''rate'', PFloat rate), (''result'', PFloat (amount * rate)),
             (''last_updated_at'', dict_get row ''last_updated_at''),
             (''cached'', PBool False)]"
    by (simp add: cg_convert_def has_key_def py_getitem_def py_float_def dict_get_def)
qed (simp_all add: cg_convert_def py_getitem_def)

lemma fetch_price_bitcoin_fresh:
  "fetch_price (env_of (json_response bitcoin_usd)) empty_world ''bitcoin'' ''usd'' False =
     (Inr [(''coin_id'', PStr ''bitcoin''), (''vs'', PStr ''usd''), (''price'', PFloat 50000),
           (''last_updated_at'', PInt 1700000000)],
      \<lparr>cache = Map.empty((''price'', ''bitcoin:usd:0'') \<mapsto>
                 (1001, [(''coin_id'', PStr ''bitcoin''), (''vs'', PStr ''usd''),
                         (''price'', PFloat 50000), (''last_updated_at'', PInt 1700000000)])),
       sent = [(''https://api.coingecko.com/api/v3/simple/price'',
                [(''ids'', PStr ''bitcoin''), (''vs_currencies'', PStr ''usd''),
                 (''include_last_updated_at'', PStr ''true''),
                 (''include_24hr_change'', PStr ''false'')])]\<rparr>)"
  by (simp add: fetch_price_def norm_coin_bitcoin norm_vs_usd price_key_def cache_get_def
      empty_world_def env_of_def get_json_response bitcoin_usd_def price_of_body_def
      py_contains_def py_getitem_def py_get_def has_key_def dict_get_def send_def
      price_params_def COINGECKO_BASE_def cache_set_def Let_def)

lemma fetch_price_bad_gateway:
  "fetch_price (env_of (Responded \<lparr>status_code = 502, content_type = Some ''text/html'',
        text_body = ''Bad Gateway'', json = None\<rparr>)) empty_world ''bitcoin'' ''usd'' False =
     (Inr [(''error'', PStr ''CoinGecko returned 502''), (''details'', PStr ''Bad Gateway'')],
      \<lparr>cache = Map.empty,
       sent = [(''https://api.coingecko.com/api/v3/simple/price'',
                [(''ids'', PStr ''bitcoin''), (''vs_currencies'', PStr ''usd''),
                 (''include_last_updated_at'', PStr ''true''),
                 (''include_24hr_change'', PStr ''false'')])]\<rparr>)"
proof -
  have s: "str_of_int 502 = ''502''" by code_simp
  show ?thesis
    by (simp add: fetch_price_def norm_coin_bitcoin norm_vs_usd price_key_def cache_get_def
      empty_world_def env_of_def get_json_def s send_def
      price_params_def COINGECKO_BASE_def Let_def)
qed

theorem cg_convert_result_witness:
  "cg_convert (env_of (json_response bitcoin_usd)) empty_world ''bitcoin'' ''usd'' (1 / 2) =
     (Inr [(''coin_id'', PStr ''bitcoin''), (''amount'', PFloat (1 / 2)), (''vs'', PStr ''usd''),
           (''rate'', PFloat 50000), (''result'', PFloat 25000),
           (''last_updated_at'', PInt 1700000000), (''cached'', PBool False)],
      snd (fetch_price (env_of (json_response bitcoin_usd)) empty_world ''bitcoin'' ''usd'' False)) \<and>
   fst (cg_convert (env_of (Responded \<lparr>status_code = 502, content_type = Some ''text/html'',
        text_body = ''Bad Gateway'', json = None\<rparr>)) empty_world ''bitcoin'' ''usd'' (1 / 2)) =
     Inr [(''error'', PStr ''CoinGecko returned 502''), (''details'', PStr ''Bad Gateway'')]"
proof -
  let ?e = "env_of (json_response bitcoin_usd)"
  let ?q = "[(''coin_id'', PStr ''bitcoin''), (''vs'', PStr ''usd''), (''price'', PFloat 50000),
             (''last_updated_at'', PInt 1700000000)]"
  let ?w = "snd (fetch_price ?e empty_world ''bitcoin'' ''usd'' False)"
  have pa: "fetch_price ?e empty_world ''bitcoin'' ''usd'' False = (Inr ?q, ?w) \<and>
      \<not> has_key ?q ''error'' \<and> map_of ?q ''price'' = Some (PFloat 50000) \<and>
      py_float (float_of_str ?e) (PFloat 50000) = Inr 50000"
    by (simp add: fetch_price_bitcoin_fresh has_key_def py_float_def)
  note a = cg_convert_result [of ?e empty_world "''bitcoin''" "''usd''" ?q ?w "PFloat 50000"
      50000 "1 / 2", THEN conjunct1, THEN mp, OF pa]
  let ?e2 = "env_of (Responded \<lparr>status_code = 502, content_type = Some ''text/html'',
        text_body = ''Bad Gateway'', json = None\<rparr>)"
  let ?q2 = "[(''error'', PStr ''CoinGecko returned 502''), (''details'', PStr ''Bad Gateway'')]"
  let ?w2 = "snd (fetch_price ?e2 empty_world ''bitcoin'' ''usd'' False)"
  have pb: "fetch_price ?e2 empty_world ''bitcoin'' ''usd'' False = (Inr ?q2, ?w2) \<and>
      has_key ?q2 ''error''"
    by (simp add: fetch_price_bad_gateway has_key_def)
  note b = cg_convert_result [of ?e2 empty_world "''bitcoin''" "''usd''" ?q2 ?w2 _ _ "1 / 2",
      THEN conjunct2, THEN conjunct1, THEN mp, OF pb]
  from a b show ?thesis by (simp add: dict_get_def)
qed

text \<open>
  C9 asks for lower-case identifiers in every identifier field of the output, the
  \<^verbatim>\<open>coin_id\<close> of the conversion included. \<^verbatim>\<open>cg_convert("Bitcoin", "USD", 0.5)\<close>
  returns \<^verbatim>\<open>coin_id\<close> \<^verbatim>\<open>Bitcoin\<close> and \<^verbatim>\<open>vs\<close> \<^verbatim>\<open>USD\<close>, as the caller wrote them, while
  \<^verbatim>\<open>fetch_price\<close> on the same input returns \<^verbatim>\<open>bitcoin\<close> and \<^verbatim>\<open>usd\<close>.
\<close>

theorem cg_convert_echoes_raw_ids:
  "fst (cg_convert (env_of (json_response bitcoin_usd)) empty_world ''Bitcoin'' ''USD'' (1 / 2)) =
     Inr [(''coin_id'', PStr ''Bitcoin''), (''amount'', PFloat (1 / 2)), (''vs'', PStr ''USD''),
          (''rate'', PFloat 50000), (''result'', PFloat 25000),
          (''last_updated_at'', PInt 1700000000), (''cached'', PBool False)] \<and>
   fst (fetch_price (env_of (json_response bitcoin_usd)) empty_world ''Bitcoin'' ''USD'' False) =
     Inr [(''coin_id'', PStr ''bitcoin''), (''vs'', PStr ''usd''), (''price'', PFloat 50000),
          (''last_updated_at'', PInt 1700000000)]"
proof -
  have n: "norm_coin ''Bitcoin'' = ''bitcoin''" by code_simp
  have f: "fetch_price (env_of (json_response bitcoin_usd)) empty_world ''Bitcoin'' ''USD'' False =
      fetch_price (env_of (json_response bitcoin_usd)) empty_world ''bitcoin'' ''usd'' False"
    by (rule fetch_price_norm) (simp_all add: n norm_coin_bitcoin norm_vs_USD norm_vs_usd)
  show ?thesis
    by (simp add: cg_convert_def f fetch_price_bitcoin_fresh has_key_def py_getitem_def
        py_float_def dict_get_def)
qed

section \<open>Failed calls and the cache\<close>

lemma has_key_update: "has_key (AList.update k v d) k' \<longleftrightarrow> k' = k \<or> has_key d k'"
  by (auto simp: has_key_def AList.dom_update)

lemma price_of_body_no_error:
  "price_of_body data coin_id vs b = Inr (Inr out) \<Longrightarrow> \<not> has_key out ''error''"
  by (auto simp: price_of_body_def Let_def has_key_update split: sum.splits bool.splits if_splits)
     (simp_all add: has_key_def)

lemma fetch_top_error_cache:
  "fetch_top e w vs per_page page = (res, w') \<Longrightarrow> is_error res \<Longrightarrow> cache w' = cache w"
  by (auto simp: fetch_top_def Let_def cache_get_def send_def is_error_def has_key_def
      split: option.splits prod.splits if_splits fetched.splits sum.splits)

lemma fetch_price_error_cache:
  "fetch_price e w coin_id vs b = (res, w') \<Longrightarrow> is_error res \<Longrightarrow> cache w' = cache w"
  by (auto simp: fetch_price_def Let_def cache_get_def send_def is_error_def
      dest: price_of_body_no_error
      split: option.splits prod.splits if_splits fetched.splits sum.splits)

lemma fetch_history_range_error_cache:
  "fetch_history_range e w coin_id vs date_from date_to = (res, w') \<Longrightarrow> is_error res \<Longrightarrow>
   cache w' = cache w"
  by (auto simp: fetch_history_range_def Let_def cache_get_def send_def is_error_def
      history_out_def has_key_def
      split: option.splits prod.splits if_splits fetched.splits sum.splits)

text \<open>
  C10: when \<^verbatim>\<open>fetch_top\<close>, \<^verbatim>\<open>fetch_price\<close> or \<^verbatim>\<open>fetch_history_range\<close> fails (it
  returns a dict with the key \<^verbatim>\<open>error\<close>, or an exception escapes), the cache after the
  call is the cache before it.
\<close>

theorem errors_leave_cache:
  "(fetch_top e w vs per_page page = (res, w') \<and> is_error res \<longrightarrow> cache w' = cache w) \<and>
   (fetch_price e w coin_id vs b = (res, w') \<and> is_error res \<longrightarrow> cache w' = cache w) \<and>
   (fetch_history_range e w coin_id vs date_from date_to = (res, w') \<and> is_error res \<longrightarrow>
      cache w' = cache w)"
  using fetch_top_error_cache [of e w vs per_page page res w']
    fetch_price_error_cache [of e w coin_id vs b res w']
    fetch_history_range_error_cache [of e w coin_id vs date_from date_to res w']
  by simp


theorem errors_leave_cache_witness:
  "fetch_price (env_of (Responded \<lparr>status_code = 502, content_type = Some ''text/html'',
        text_body = ''Bad Gateway'', json = None\<rparr>)) quote_world ''ethereum'' ''usd'' False =
     (Inr [(''error'', PStr ''CoinGecko returned 502''), (''details'', PStr ''Bad Gateway'')],
      send quote_world ''https://api.coingecko.com/api/v3/simple/price''
        [(''ids'', PStr ''ethereum''), (''vs_currencies'', PStr ''usd''),
         (''include_last_updated_at'', PStr ''true''),
         (''include_24hr_change'', PStr ''false'')]) \<and>
   is_error (Inr [(''error'', PStr ''CoinGecko returned 502''), (''details'', PStr ''Bad Gateway'')]) \<and>
   cache (send quote_world ''https://api.coingecko.com/api/v3/simple/price''
        [(''ids'', PStr ''ethereum''), (''vs_currencies'', PStr ''usd''),
         (''include_last_updated_at'', PStr ''true''),
         (''include_24hr_change'', PStr ''false'')]) = cache quote_world"
proof -
  let ?e = "env_of (Responded \<lparr>status_code = 502, content_type = Some ''text/html'',
        text_body = ''Bad Gateway'', json = None\<rparr>)"
  let ?res = "Inr [(''error'', PStr ''CoinGecko returned 502''), (''details'', PStr ''Bad Gateway'')]"
  let ?w' = "send quote_world ''https://api.coingecko.com/api/v3/simple/price''
        [(''ids'', PStr ''ethereum''), (''vs_currencies'', PStr ''usd''),
         (''include_last_updated_at'', PStr ''true''),
         (''include_24hr_change'', PStr ''false'')]"
  have s: "str_of_int 502 = ''502''" by code_simp
  have n: "norm_coin ''ethereum'' = ''ethereum''" by code_simp
  have f: "fetch_price ?e quote_world ''ethereum'' ''usd'' False = (?res, ?w')"
    by (simp add: fetch_price_def n norm_vs_usd price_key_def cache_get_def
      quote_world_def env_of_def get_json_def s send_def
      price_params_def COINGECKO_BASE_def Let_def)
  have i: "is_error ?res" by (simp add: is_error_def has_key_def)
  from f i have p: "fetch_price ?e quote_world ''ethereum'' ''usd'' False = (?res, ?w') \<and> is_error ?res"
    by simp
  note t = errors_leave_cache [where e = ?e and w = quote_world and coin_id = "''ethereum''"
      and vs = "''usd''" and b = False and res = ?res and w' = ?w',
      THEN conjunct2, THEN conjunct1, THEN mp, OF p]
  from f i t show ?thesis by simp
qed

section \<open>Properties of the history fetcher\<close>






































lemma py_int_of_int: "py_int (of_int k) = k"
  by (simp add: py_int_def)

lemma py_int_resolution:
  "py_int (of_int k + 1 / 1000000) = (if k < 0 then k + 1 else k)"
proof -
  have f: "\<lfloor>of_int k + (1 / 1000000 :: real)\<rfloor> = k" by (simp add: floor_unique)
  have c: "\<lceil>of_int k + (1 / 1000000 :: real)\<rceil> = k + 1" by (simp add: ceiling_unique)
  have n: "(of_int k + 1 / 1000000 < (0 :: real)) \<longleftrightarrow> k < 0"
  proof
    assume "of_int k + 1 / 1000000 < (0 :: real)"
    then have "(of_int k :: real) < 0" by simp
    then show "k < 0" by simp
  next
    assume "k < 0"
    then have "k \<le> - 1" by simp
    then have "(of_int k :: real) \<le> - 1" by (metis of_int_le_iff of_int_minus of_int_1)
    then show "of_int k + 1 / 1000000 < (0 :: real)" by simp
  qed
  show ?thesis unfolding py_int_def n f c by simp
qed

text \<open>
  With the later date on or after 1970-01-01 the upper bound is the last second of that
  day; with the later date before 1970-01-01 it is the first second of the next day.
\<close>

lemma history_bounds_values:
  assumes "\<not> dt_less dt_to dt_from"
  shows "history_bounds dt_from dt_to =
           ((ymd2ord dt_from - 719163) * 86400,
            (ymd2ord dt_to - 719163) * 86400
              + (if ymd2ord dt_to < 719163 then 86400 else 86399))"
  using assms
  by (simp add: history_bounds_def timestamp_def py_int_of_int py_int_resolution
      del: of_int_mult of_int_diff)

text \<open>
  C4 says that the upper bound is the start of the day of \<^verbatim>\<open>date_to\<close> plus 86399. For
  the dates 1969-12-30 and 1969-12-31 the start of the day of \<^verbatim>\<open>date_to\<close> is -86400,
  and the code computes the upper bound 0, the first second of 1970-01-01, not -1:
  \<^verbatim>\<open>int\<close> truncates the negative timestamp -86399.999999 towards zero.
\<close>

theorem history_bounds_before_1970:
  "parse_iso_date ''1969-12-30'' = Some (1969, 12, 30) \<and>
   parse_iso_date ''1969-12-31'' = Some (1969, 12, 31) \<and>
   timestamp (1969, 12, 31) = - 86400 \<and>
   history_bounds (1969, 12, 30) (1969, 12, 31) = (- 172800, 0) \<and>
   sent (snd (fetch_history_range (env_of (Raised ''timeout'')) empty_world
          ''bitcoin'' ''usd'' ''1969-12-30'' ''1969-12-31'')) =
     [(''https://api.coingecko.com/api/v3/coins/bitcoin/market_chart/range'',
       [(''vs_currency'', PStr ''usd''), (''from'', PInt (- 172800)), (''to'', PInt 0)])]"
proof -
  have p1: "parse_iso_date ''1969-12-30'' = Some (1969, 12, 30)" by code_simp
  have p2: "parse_iso_date ''1969-12-31'' = Some (1969, 12, 31)" by code_simp
  have t: "timestamp (1969, 12, 31) = - 86400"
    by (simp add: timestamp_def ymd2ord_def days_before_year_def days_before_month_def
        DAYS_BEFORE_MONTH_def is_leap_def)
  have b: "history_bounds (1969, 12, 30) (1969, 12, 31) = (- 172800, 0)"
    by (simp add: history_bounds_def dt_less_def py_int_def timestamp_def ymd2ord_def
        days_before_year_def days_before_month_def DAYS_BEFORE_MONTH_def is_leap_def)
  have s: "sent (snd (fetch_history_range (env_of (Raised ''timeout'')) empty_world
          ''bitcoin'' ''usd'' ''1969-12-30'' ''1969-12-31'')) =
     [(''https://api.coingecko.com/api/v3/coins/bitcoin/market_chart/range'',
       [(''vs_currency'', PStr ''usd''), (''from'', PInt (- 172800)), (''to'', PInt 0)])]"
    by (simp add: fetch_history_range_def norm_coin_bitcoin norm_vs_usd p1 p2 b
        cache_get_def empty_world_def env_of_def get_json_raised
        send_def history_params_def history_url_def COINGECKO_BASE_def Let_def)
  from p1 p2 t b s show ?thesis by simp
qed

end
